theory Spec2Isabelle
  imports Main
begin

section \<open>Python values\<close>

text \<open>
  The client stores whatever the caller or a response body hands it, so the fields hold
  dynamically typed values. The values that matter here are the ones a JSON body can
  carry, with \<open>JNull\<close> for Python's \<open>None\<close>. Numbers are integers: no claim computes
  with a float.
\<close>

datatype json =
    JNull
  | JBool bool
  | JNum int
  | JStr string
  | JArr "json list"
  | JObj "(string \<times> json) list"

text \<open>Python truthiness, as \<open>if x:\<close>, \<open>x and y\<close> and \<open>bool(x)\<close> read a value.\<close>

fun truthy :: "json \<Rightarrow> bool" where
  "truthy JNull = False"
| "truthy (JBool b) = b"
| "truthy (JNum n) = (n \<noteq> 0)"
| "truthy (JStr s) = (s \<noteq> [])"
| "truthy (JArr xs) = (xs \<noteq> [])"
| "truthy (JObj kvs) = (kvs \<noteq> [])"

datatype error =
    DeprecationWarning string
  | ValueError string
  | TgtgAPIError int string
  | TgtgLoginError int string
  | KeyError string
  | TypeError
  | JSONDecodeError
  | ConnectionError

text \<open>
  \<open>obj[key]\<close> with a string key: a dictionary without the key raises \<open>KeyError\<close>, and
  every other value raises \<open>TypeError\<close> (not subscriptable, or indices must be integers).
\<close>

fun getitem :: "json \<Rightarrow> string \<Rightarrow> error + json" where
  "getitem (JObj kvs) k = (case map_of kvs k of None \<Rightarrow> Inl (KeyError k) | Some v \<Rightarrow> Inr v)"
| "getitem _ k = Inl TypeError"

section \<open>Constants of the module\<close>

definition BASE_URL :: string where
  "BASE_URL = ''https://apptoogoodtogo.com/api/''"

definition API_ITEM_ENDPOINT :: string where
  "API_ITEM_ENDPOINT = ''item/v7/''"

definition LOGIN_ENDPOINT :: string where
  "LOGIN_ENDPOINT = ''auth/v3/authByEmail''"

definition AUTH_ENDPOINT :: string where
  "AUTH_ENDPOINT = ''auth/v3/authByRequestPollingId''"

definition SIGNUP_BY_EMAIL_ENDPOINT :: string where
  "SIGNUP_BY_EMAIL_ENDPOINT = ''auth/v2/signUpByEmail''"

definition REFRESH_ENDPOINT :: string where
  "REFRESH_ENDPOINT = ''auth/v1/token/refresh''"

definition USER_AGENTS :: "string list" where
  "USER_AGENTS =
    [''TGTG/21.9.3 Dalvik/2.1.0 (Linux; U; Android 6.0.1; Nexus 5 Build/M4B30Z)'',
     ''TGTG/21.9.3 Dalvik/2.1.0 (Linux; U; Android 7.0; SM-G935F Build/NRD90M)'',
     ''TGTG/21.9.3 Dalvik/2.1.0 (Linux; Android 6.0.1; SM-G920V Build/MMB29K)'']"

definition DEFAULT_ACCESS_TOKEN_LIFETIME :: int where
  "DEFAULT_ACCESS_TOKEN_LIFETIME = 3600 * 4"

definition HTTP_OK :: int where
  "HTTP_OK = 200"

definition HTTP_ACCEPTED :: int where
  "HTTP_ACCEPTED = 202"

section \<open>The client and the world around it\<close>

text \<open>
  The instance fields of \<open>TgtgClient\<close>. A \<open>datetime\<close> is the number of microseconds since
  a fixed instant. \<open>store_function\<close> says whether a callback is configured; what the
  callback receives is recorded in the world.
\<close>

record client =
  base_url :: string
  email :: json
  password :: json
  access_token :: json
  refresh_token :: json
  last_time_token_refreshed :: "int option"
  access_token_lifetime :: int
  user_id :: json
  user_agent :: json
  language :: json
  proxies :: json
  timeout :: json
  store_function :: bool

text \<open>
  A response as the code reads it: \<open>status_code\<close>, the raw \<open>content\<close>, and what
  \<open>response.json()\<close> returns (\<open>None\<close> when the body does not parse and the call raises).
  \<open>took\<close> is the time the exchange took, in microseconds.
\<close>

record response =
  status_code :: int
  content :: string
  body :: "json option"
  took :: nat

text \<open>
  A request as \<open>requests.post\<close> receives it. \<open>urljoin\<close> is not evaluated: the request
  keeps the base and the references joined onto it, in order. The headers are the two
  configured ones and the bearer token, present when the access token is truthy.
\<close>

record request =
  url_base :: string
  url_path :: "string list"
  hdr_user_agent :: json
  hdr_accept_language :: json
  hdr_bearer :: "json option"
  payload :: json

record snapshot =
  snap_access_token :: json
  snap_refresh_token :: json
  snap_user_id :: json
  snap_last_time_token_refreshed :: "int option"

text \<open>
  Everything outside the instance: the wall clock that \<open>datetime.now()\<close> reads, the
  responses the server will give (in order), the requests sent so far, the sleeps taken
  (in seconds) and the snapshots handed to the persistence callback.
\<close>

record world =
  clock :: int
  network :: "response list"
  sent :: "request list"
  slept :: "nat list"
  stored :: "snapshot list"

type_synonym 'a outcome = "(error + 'a) \<times> client \<times> world"

definition post :: "request \<Rightarrow> world \<Rightarrow> (error + response) \<times> world" where
  "post rq w =
    (case network w of
       [] \<Rightarrow> (Inl ConnectionError, w\<lparr>sent := sent w @ [rq]\<rparr>)
     | r # rs \<Rightarrow>
         (Inr r, w\<lparr>clock := clock w + int (took r), network := rs, sent := sent w @ [rq]\<rparr>))"

definition sleep :: "nat \<Rightarrow> world \<Rightarrow> world" where
  "sleep secs w = w\<lparr>clock := clock w + 1000000 * int secs, slept := slept w @ [secs]\<rparr>"

definition response_json :: "response \<Rightarrow> error + json" where
  "response_json r = (case body r of None \<Rightarrow> Inl JSONDecodeError | Some j \<Rightarrow> Inr j)"

text \<open>
  \<open>timedelta.seconds\<close>: a \<open>timedelta\<close> is normalised to days, seconds in \<open>[0, 86400)\<close>
  and microseconds in \<open>[0, 1000000)\<close>, and \<open>.seconds\<close> is the middle component.
\<close>

definition timedelta_seconds :: "int \<Rightarrow> int" where
  "timedelta_seconds d = (d div 1000000) mod 86400"

definition random_choice :: "nat \<Rightarrow> 'a list \<Rightarrow> 'a" where
  "random_choice seed xs = xs ! (seed mod length xs)"

section \<open>TgtgClient\<close>

text \<open>The message of the constructor's exception; \<open>CHR 0x27\<close> is the single quote.\<close>

definition password_deprecated :: string where
  "password_deprecated =
    [CHR 0x27] @ ''password'' @ [CHR 0x27] @ '' is deprecated, use '' @
    [CHR 0x27] @ ''email'' @ [CHR 0x27] @ '' only ''"

text \<open>
  \<open>__init__\<close>. The arguments are in the order of the signature; \<open>seed\<close> is the draw of
  \<open>random.choice\<close>.
\<close>

definition TgtgClient_init ::
  "string \<Rightarrow> json \<Rightarrow> json \<Rightarrow> json \<Rightarrow> json \<Rightarrow> json \<Rightarrow> json \<Rightarrow> json \<Rightarrow> json \<Rightarrow> json \<Rightarrow>
   int option \<Rightarrow> int \<Rightarrow> bool \<Rightarrow> nat \<Rightarrow> error + client" where
  "TgtgClient_init url email_arg password_arg access_token_arg user_id_arg user_agent_arg
     language_arg proxies_arg timeout_arg refresh_token_arg last_time_token_refreshed_arg
     access_token_lifetime_arg store_function_arg seed =
    (if truthy password_arg
     then Inl (DeprecationWarning password_deprecated)
     else Inr \<lparr>base_url = url, email = email_arg, password = password_arg,
            access_token = access_token_arg, refresh_token = refresh_token_arg,
            last_time_token_refreshed = last_time_token_refreshed_arg,
            access_token_lifetime = access_token_lifetime_arg,
            user_id = user_id_arg,
            user_agent = (if truthy user_agent_arg then user_agent_arg
                          else JStr (random_choice seed USER_AGENTS)),
            language = language_arg, proxies = proxies_arg, timeout = timeout_arg,
            store_function = store_function_arg\<rparr>)"

definition headers :: "client \<Rightarrow> json \<times> json \<times> json option" where
  "headers c =
    (user_agent c, language c,
     if truthy (access_token c) then Some (access_token c) else None)"

definition mk_request :: "client \<Rightarrow> string list \<Rightarrow> json \<Rightarrow> request" where
  "mk_request c path data =
    \<lparr>url_base = base_url c, url_path = path,
     hdr_user_agent = fst (headers c),
     hdr_accept_language = fst (snd (headers c)),
     hdr_bearer = snd (snd (headers c)),
     payload = data\<rparr>"

definition already_logged :: "client \<Rightarrow> bool" where
  "already_logged c = (truthy (access_token c) \<and> truthy (user_id c))"

definition current_snapshot :: "client \<Rightarrow> snapshot" where
  "current_snapshot c =
    \<lparr>snap_access_token = access_token c, snap_refresh_token = refresh_token c,
     snap_user_id = user_id c,
     snap_last_time_token_refreshed = last_time_token_refreshed c\<rparr>"

definition call_store_function :: "client \<Rightarrow> world \<Rightarrow> world" where
  "call_store_function c w =
    (if store_function c then w\<lparr>stored := stored w @ [current_snapshot c]\<rparr> else w)"

text \<open>The guard at the head of \<open>_refresh_token\<close>: true when the method returns at once.\<close>

definition token_still_fresh :: "client \<Rightarrow> world \<Rightarrow> bool" where
  "token_still_fresh c w =
    (case last_time_token_refreshed c of
       None \<Rightarrow> False
     | Some t \<Rightarrow> timedelta_seconds (clock w - t) \<le> access_token_lifetime c)"

definition refresh_request :: "client \<Rightarrow> request" where
  "refresh_request c =
    mk_request c [REFRESH_ENDPOINT] (JObj [(''refresh_token'', refresh_token c)])"

text \<open>
  \<open>_refresh_token\<close>. An exception leaves the fields assigned before it as they are, so
  every branch returns the instance as it stands at that point.
\<close>

definition TgtgClient_refresh_token :: "client \<Rightarrow> world \<Rightarrow> unit outcome" where
  "TgtgClient_refresh_token c w =
    (if token_still_fresh c w then (Inr (), c, w)
     else
       (case post (refresh_request c) w of
          (Inl e, w1) \<Rightarrow> (Inl e, c, w1)
        | (Inr r, w1) \<Rightarrow>
            if status_code r = HTTP_OK then
              (case response_json r of
                 Inl e \<Rightarrow> (Inl e, c, w1)
               | Inr j \<Rightarrow>
                   (case getitem j ''access_token'' of
                      Inl e \<Rightarrow> (Inl e, c, w1)
                    | Inr a \<Rightarrow>
                        (let c1 = c\<lparr>access_token := a\<rparr> in
                         case getitem j ''refresh_token'' of
                           Inl e \<Rightarrow> (Inl e, c1, w1)
                         | Inr b \<Rightarrow>
                             (let c2 = c1\<lparr>refresh_token := b\<rparr>;
                                  c3 = c2\<lparr>last_time_token_refreshed := Some (clock w1)\<rparr>
                              in (Inr (), c3, call_store_function c3 w1)))))
            else (Inl (TgtgAPIError (status_code r) (content r)), c, w1)))"

definition login_request :: "client \<Rightarrow> request" where
  "login_request c =
    mk_request c [LOGIN_ENDPOINT]
      (JObj [(''device_type'', JStr ''ANDROID''), (''email'', email c)])"

definition poll_request :: "client \<Rightarrow> json \<Rightarrow> request" where
  "poll_request c polling_id =
    mk_request c [AUTH_ENDPOINT]
      (JObj [(''device_type'', JStr ''ANDROID''), (''email'', email c),
             (''request_polling_id'', polling_id)])"

text \<open>\<open>body["startup_data"]["user"]["user_id"]\<close>, subscript by subscript.\<close>

definition startup_user_id :: "json \<Rightarrow> error + json" where
  "startup_user_id j =
    (case getitem j ''startup_data'' of
       Inl e \<Rightarrow> Inl e
     | Inr s \<Rightarrow>
         (case getitem s ''user'' of
            Inl e \<Rightarrow> Inl e
          | Inr u \<Rightarrow> getitem u ''user_id''))"

text \<open>
  The polling loop of \<open>_login\<close>, \<open>while retries > 0\<close>, by recursion on \<open>retries\<close>.
  \<open>login_response\<close> is the body of the login step; the loop rebinds it only on the
  iteration that leaves the loop.
\<close>

fun TgtgClient_login_poll :: "nat \<Rightarrow> json \<Rightarrow> client \<Rightarrow> world \<Rightarrow> unit outcome" where
  "TgtgClient_login_poll 0 login_response c w = (Inr (), c, w)"
| "TgtgClient_login_poll (Suc retries) login_response c w =
    (case getitem login_response ''polling_id'' of
       Inl e \<Rightarrow> (Inl e, c, w)
     | Inr polling_id \<Rightarrow>
         (case post (poll_request c polling_id) w of
            (Inl e, w1) \<Rightarrow> (Inl e, c, w1)
          | (Inr r, w1) \<Rightarrow>
              if status_code r = HTTP_OK then
                (case response_json r of
                   Inl e \<Rightarrow> (Inl e, c, w1)
                 | Inr j \<Rightarrow>
                     (case getitem j ''access_token'' of
                        Inl e \<Rightarrow> (Inl e, c, w1)
                      | Inr a \<Rightarrow>
                          (let c1 = c\<lparr>access_token := a\<rparr> in
                           case getitem j ''refresh_token'' of
                             Inl e \<Rightarrow> (Inl e, c1, w1)
                           | Inr b \<Rightarrow>
                               (let c2 = c1\<lparr>refresh_token := b\<rparr>;
                                    c3 = c2\<lparr>last_time_token_refreshed := Some (clock w1)\<rparr>
                                in case startup_user_id j of
                                     Inl e \<Rightarrow> (Inl e, c3, w1)
                                   | Inr u \<Rightarrow>
                                       (let c4 = c3\<lparr>user_id := u\<rparr>
                                        in (Inr (), c4, call_store_function c4 w1))))))
              else if status_code r = HTTP_ACCEPTED then
                TgtgClient_login_poll retries login_response c (sleep 10 w1)
              else (Inl (TgtgLoginError (status_code r) (content r)), c, w1)))"

definition TgtgClient_login :: "client \<Rightarrow> world \<Rightarrow> unit outcome" where
  "TgtgClient_login c w =
    (if already_logged c then TgtgClient_refresh_token c w
     else if \<not> truthy (access_token c) \<and> \<not> truthy (email c)
     then (Inl (ValueError ''You must fill email''), c, w)
     else
       (case post (login_request c) w of
          (Inl e, w1) \<Rightarrow> (Inl e, c, w1)
        | (Inr r, w1) \<Rightarrow>
            if status_code r = HTTP_OK then
              (case response_json r of
                 Inl e \<Rightarrow> (Inl e, c, w1)
               | Inr login_response \<Rightarrow> TgtgClient_login_poll 60 login_response c w1)
            else (Inl (TgtgLoginError (status_code r) (content r)), c, w1)))"

subsection \<open>Item operations\<close>

text \<open>The keyword arguments of \<open>get_items\<close>.\<close>

record item_query =
  latitude :: json
  longitude :: json
  radius :: json
  page_size :: json
  page :: json
  discover :: json
  favorites_only :: json
  item_categories :: json
  diet_categories :: json
  pickup_earliest :: json
  pickup_latest :: json
  search_phrase :: json
  with_stock_only :: json
  hidden_only :: json
  we_care_only :: json

definition items_request :: "client \<Rightarrow> item_query \<Rightarrow> request" where
  "items_request c q =
    mk_request c [API_ITEM_ENDPOINT]
      (JObj [(''user_id'', user_id c),
             (''origin'', JObj [(''latitude'', latitude q), (''longitude'', longitude q)]),
             (''radius'', radius q),
             (''page_size'', page_size q),
             (''page'', page q),
             (''discover'', discover q),
             (''favorites_only'', favorites_only q),
             (''item_categories'',
                if truthy (item_categories q) then item_categories q else JArr []),
             (''diet_categories'',
                if truthy (diet_categories q) then diet_categories q else JArr []),
             (''pickup_earliest'', pickup_earliest q),
             (''pickup_latest'', pickup_latest q),
             (''search_phrase'', if truthy (search_phrase q) then search_phrase q else JNull),
             (''with_stock_only'', with_stock_only q),
             (''hidden_only'', hidden_only q),
             (''we_care_only'', we_care_only q)])"

definition TgtgClient_get_items :: "client \<Rightarrow> item_query \<Rightarrow> world \<Rightarrow> json outcome" where
  "TgtgClient_get_items c q w =
    (case TgtgClient_login c w of
       (Inl e, c1, w1) \<Rightarrow> (Inl e, c1, w1)
     | (Inr _, c1, w1) \<Rightarrow>
         (case post (items_request c1 q) w1 of
            (Inl e, w2) \<Rightarrow> (Inl e, c1, w2)
          | (Inr r, w2) \<Rightarrow>
              if status_code r = HTTP_OK then
                (case response_json r of
                   Inl e \<Rightarrow> (Inl e, c1, w2)
                 | Inr j \<Rightarrow>
                     (case getitem j ''items'' of
                        Inl e \<Rightarrow> (Inl e, c1, w2)
                      | Inr items \<Rightarrow> (Inr items, c1, w2)))
              else (Inl (TgtgAPIError (status_code r) (content r)), c1, w2)))"





subsection \<open>Sign-up\<close>

text \<open>The keyword arguments of \<open>signup_by_email\<close>.\<close>

record signup_fields =
  su_email :: json
  su_password :: json
  su_name :: json
  su_country_id :: json
  su_device_type :: json
  su_newsletter_opt_in :: json
  su_push_notification_opt_in :: json

definition signup_request :: "client \<Rightarrow> signup_fields \<Rightarrow> request" where
  "signup_request c f =
    mk_request c [SIGNUP_BY_EMAIL_ENDPOINT]
      (JObj [(''country_id'', su_country_id f),
             (''device_type'', su_device_type f),
             (''email'', su_email f),
             (''name'', su_name f),
             (''newsletter_opt_in'', su_newsletter_opt_in f),
             (''password'', su_password f),
             (''push_notification_opt_in'', su_push_notification_opt_in f)])"

text \<open>
  \<open>signup_by_email\<close> returns \<open>self\<close>: the instance of the outcome. Each
  \<open>response.json()\<close> of the source parses the same body, so one parse stands for them.
\<close>

definition TgtgClient_signup_by_email ::
  "client \<Rightarrow> signup_fields \<Rightarrow> world \<Rightarrow> unit outcome" where
  "TgtgClient_signup_by_email c f w =
    (case post (signup_request c f) w of
       (Inl e, w1) \<Rightarrow> (Inl e, c, w1)
     | (Inr r, w1) \<Rightarrow>
         if status_code r = HTTP_OK then
           (case response_json r of
              Inl e \<Rightarrow> (Inl e, c, w1)
            | Inr j \<Rightarrow>
                (case getitem j ''access_token'' of
                   Inl e \<Rightarrow> (Inl e, c, w1)
                 | Inr a \<Rightarrow>
                     (let c1 = c\<lparr>access_token := a\<rparr> in
                      case getitem j ''refresh_token'' of
                        Inl e \<Rightarrow> (Inl e, c1, w1)
                      | Inr b \<Rightarrow>
                          (let c2 = c1\<lparr>refresh_token := b\<rparr>;
                               c3 = c2\<lparr>last_time_token_refreshed := Some (clock w1)\<rparr>
                           in case startup_user_id j of
                                Inl e \<Rightarrow> (Inl e, c3, w1)
                              | Inr u \<Rightarrow> (Inr (), c3\<lparr>user_id := u\<rparr>, w1)))))
         else (Inl (TgtgAPIError (status_code r) (content r)), c, w1))"

section \<open>Vocabulary of the properties\<close>









section \<open>Sample inputs\<close>

text \<open>
  A signed-in client whose token was obtained at instant 0, an idle world, and a JSON
  reply that takes a quarter of a second.
\<close>

definition demo_client :: client where
  "demo_client =
    \<lparr>base_url = BASE_URL, email = JStr ''user@example.com'', password = JNull,
     access_token = JStr ''A0'', refresh_token = JStr ''R0'',
     last_time_token_refreshed = Some 0,
     access_token_lifetime = DEFAULT_ACCESS_TOKEN_LIFETIME,
     user_id = JStr ''U0'', user_agent = JStr ''agent'', language = JStr ''en-UK'',
     proxies = JNull, timeout = JNull, store_function = True\<rparr>"

definition demo_world :: world where
  "demo_world = \<lparr>clock = 0, network = [], sent = [], slept = [], stored = []\<rparr>"

definition reply :: "int \<Rightarrow> (string \<times> json) list \<Rightarrow> response" where
  "reply code kvs =
    \<lparr>status_code = code, content = ''raw'', body = Some (JObj kvs), took = 250000\<rparr>"

text \<open>A search around a point with the defaults of \<open>get_items\<close>, and a registration.\<close>

definition demo_query :: item_query where
  "demo_query =
    \<lparr>latitude = JNum 52, longitude = JNum 13, radius = JNum 21, page_size = JNum 20,
     page = JNum 1, discover = JBool False, favorites_only = JBool True,
     item_categories = JNull, diet_categories = JNull, pickup_earliest = JNull,
     pickup_latest = JNull, search_phrase = JNull, with_stock_only = JBool False,
     hidden_only = JBool False, we_care_only = JBool False\<rparr>"

definition demo_signup :: signup_fields where
  "demo_signup =
    \<lparr>su_email = JStr ''user@example.com'', su_password = JStr ''hunter2'',
     su_name = JStr ''User'', su_country_id = JStr ''GB'',
     su_device_type = JStr ''ANDROID'', su_newsletter_opt_in = JBool False,
     su_push_notification_opt_in = JBool True\<rparr>"

section \<open>Basic facts\<close>

lemma post_Cons:
  "network w = r # rs \<Longrightarrow>
   post rq w =
     (Inr r, w\<lparr>clock := clock w + int (took r), network := rs, sent := sent w @ [rq]\<rparr>)"
  by (simp add: post_def)

lemmas demo_defs =
  demo_client_def demo_world_def reply_def DEFAULT_ACCESS_TOKEN_LIFETIME_def
  HTTP_OK_def HTTP_ACCEPTED_def

lemmas flow_defs =
  TgtgClient_login_def TgtgClient_refresh_token_def already_logged_def
  token_still_fresh_def timedelta_seconds_def post_def response_json_def
  call_store_function_def current_snapshot_def Let_def

section \<open>The constructor\<close>

text \<open>
  Claim C10. Whenever the \<open>password\<close> argument is truthy (supplied and non-empty), the
  constructor raises \<open>DeprecationWarning\<close> and no instance comes into being; whenever it
  is absent or empty, the constructor returns an instance, whose \<open>password\<close> field is
  that falsy argument.
\<close>

theorem C10_password_rejected:
  "(truthy p \<longrightarrow>
      TgtgClient_init url e p a u ua l px t r lt life sf seed
        = Inl (DeprecationWarning password_deprecated)) \<and>
   (\<not> truthy p \<longrightarrow>
      (case TgtgClient_init url e p a u ua l px t r lt life sf seed of
         Inl err \<Rightarrow> False
       | Inr c \<Rightarrow> password c = p \<and> \<not> truthy (password c)))"
  by (simp add: TgtgClient_init_def)

theorem C10_password_rejected_witness:
  "TgtgClient_init BASE_URL (JStr ''user@example.com'') (JStr ''hunter2'') JNull JNull JNull
      (JStr ''en-UK'') JNull JNull JNull None DEFAULT_ACCESS_TOKEN_LIFETIME False 0
     = Inl (DeprecationWarning password_deprecated) \<and>
   (case TgtgClient_init BASE_URL (JStr ''user@example.com'') (JStr []) JNull JNull JNull
      (JStr ''en-UK'') JNull JNull JNull None DEFAULT_ACCESS_TOKEN_LIFETIME False 0 of
      Inl err \<Rightarrow> False
    | Inr c \<Rightarrow> password c = JStr [] \<and> \<not> truthy (password c)) \<and>
   (case TgtgClient_init BASE_URL (JStr ''user@example.com'') JNull JNull JNull JNull
      (JStr ''en-UK'') JNull JNull JNull None DEFAULT_ACCESS_TOKEN_LIFETIME False 0 of
      Inl err \<Rightarrow> False
    | Inr c \<Rightarrow> password c = JNull \<and> \<not> truthy (password c))"
proof -
  have t: "truthy (JStr ''hunter2'')" and f1: "\<not> truthy (JStr [])" and f2: "\<not> truthy JNull"
    by simp_all
  note inst = C10_password_rejected
    [of _ BASE_URL "JStr ''user@example.com''" JNull JNull JNull "JStr ''en-UK''"
        JNull JNull JNull None DEFAULT_ACCESS_TOKEN_LIFETIME False 0]
  from inst [of "JStr ''hunter2''"] inst [of "JStr []"] inst [of JNull] t f1 f2
  show ?thesis by blast
qed

section \<open>The entry point \<open>_login\<close>\<close>

text \<open>
  Claim C1, at an input where it fails. The client is signed in, its token was obtained
  at instant 0 and its lifetime is 14400 seconds. The clock stands at one day and ten
  seconds later, so the elapsed time exceeds the lifetime; yet \<open>_login\<close> returns at once,
  sends nothing and changes nothing, because \<open>timedelta.seconds\<close> of that interval is 10.
\<close>

theorem C1_stale_token_not_refreshed:
  "already_logged demo_client \<and>
   last_time_token_refreshed demo_client = Some 0 \<and>
   access_token_lifetime demo_client = 14400 \<and>
   clock (demo_world\<lparr>clock := 86410 * 1000000, network := [reply 200 []]\<rparr>) - 0
     > 14400 * 1000000 \<and>
   timedelta_seconds (86410 * 1000000 - 0) = 10 \<and>
   TgtgClient_login demo_client
      (demo_world\<lparr>clock := 86410 * 1000000, network := [reply 200 []]\<rparr>)
    = (Inr (), demo_client,
       demo_world\<lparr>clock := 86410 * 1000000, network := [reply 200 []]\<rparr>)"
  by (simp add: demo_defs flow_defs)




section \<open>The refresh flow\<close>

text \<open>
  Claim C3. When \<open>_refresh_token\<close> gets past its guard and the server answers \<open>r\<close>: if
  \<open>r\<close> is a 200 whose body holds \<open>access_token\<close> and \<open>refresh_token\<close>, the two fields
  become exactly those values, \<open>last_time_token_refreshed\<close> becomes the time of the
  answer and nothing else in the instance changes (so \<open>user_id\<close> is kept); if \<open>r\<close> has
  any other status, \<open>TgtgAPIError\<close> is raised with that status and the raw body, and the
  instance is unchanged.
\<close>

theorem C3_refresh_outcomes:
  assumes "\<not> token_still_fresh c w" and "network w = r # rs"
  shows "(status_code r = HTTP_OK \<and> body r = Some j \<and>
          getitem j ''access_token'' = Inr a \<and> getitem j ''refresh_token'' = Inr b \<longrightarrow>
            TgtgClient_refresh_token c w =
              (Inr (),
               c\<lparr>access_token := a, refresh_token := b,
                 last_time_token_refreshed := Some (clock w + int (took r))\<rparr>,
               call_store_function
                 (c\<lparr>access_token := a, refresh_token := b,
                    last_time_token_refreshed := Some (clock w + int (took r))\<rparr>)
                 (w\<lparr>clock := clock w + int (took r), network := rs,
                    sent := sent w @ [refresh_request c]\<rparr>))) \<and>
         (status_code r \<noteq> HTTP_OK \<longrightarrow>
            TgtgClient_refresh_token c w =
              (Inl (TgtgAPIError (status_code r) (content r)), c,
               w\<lparr>clock := clock w + int (took r), network := rs,
                 sent := sent w @ [refresh_request c]\<rparr>))"
  using assms
  by (simp add: TgtgClient_refresh_token_def post_Cons response_json_def Let_def)

theorem C3_refresh_outcomes_witness:
  "TgtgClient_refresh_token (demo_client\<lparr>last_time_token_refreshed := None\<rparr>)
      (demo_world\<lparr>network :=
         [reply 200 [(''access_token'', JStr ''A2''), (''refresh_token'', JStr ''R2'')]]\<rparr>)
     = (Inr (),
        demo_client\<lparr>access_token := JStr ''A2'', refresh_token := JStr ''R2'',
          last_time_token_refreshed := Some 250000\<rparr>,
        demo_world\<lparr>clock := 250000,
          sent := [refresh_request (demo_client\<lparr>last_time_token_refreshed := None\<rparr>)],
          stored := [\<lparr>snap_access_token = JStr ''A2'', snap_refresh_token = JStr ''R2'',
                      snap_user_id = JStr ''U0'',
                      snap_last_time_token_refreshed = Some 250000\<rparr>]\<rparr>) \<and>
   TgtgClient_refresh_token (demo_client\<lparr>last_time_token_refreshed := None\<rparr>)
      (demo_world\<lparr>network := [reply 403 []]\<rparr>)
     = (Inl (TgtgAPIError 403 ''raw''),
        demo_client\<lparr>last_time_token_refreshed := None\<rparr>,
        demo_world\<lparr>clock := 250000,
          sent := [refresh_request (demo_client\<lparr>last_time_token_refreshed := None\<rparr>)]\<rparr>)"
proof -
  let ?c = "demo_client\<lparr>last_time_token_refreshed := None\<rparr>"
  let ?kvs = "[(''access_token'', JStr ''A2''), (''refresh_token'', JStr ''R2'')]"
  have g: "\<not> token_still_fresh ?c w" for w
    by (simp add: token_still_fresh_def)
  have n: "network (demo_world\<lparr>network := [x]\<rparr>) = x # []" for x
    by simp
  from C3_refresh_outcomes [OF g n, of "reply 200 ?kvs" "JObj ?kvs" "JStr ''A2''" "JStr ''R2''"]
       C3_refresh_outcomes [OF g n, of "reply 403 []" JNull JNull JNull]
  show ?thesis
    by (simp add: demo_defs call_store_function_def current_snapshot_def)
qed

section \<open>The polling login flow\<close>

text \<open>
  While the server answers 202 the loop sends the same request, sleeps ten seconds and
  counts one attempt down; the instance is not touched.
\<close>

lemma login_poll_accepted:
  assumes "\<forall>r\<in>set rs. status_code r = HTTP_ACCEPTED"
    and "getitem lr ''polling_id'' = Inr pid"
    and "network w = rs @ rest"
  shows "TgtgClient_login_poll (length rs + m) lr c w =
         TgtgClient_login_poll m lr c
           (w\<lparr>clock := clock w + int (sum_list (map took rs)) + 10000000 * int (length rs),
              network := rest,
              sent := sent w @ replicate (length rs) (poll_request c pid),
              slept := slept w @ replicate (length rs) 10\<rparr>)"
  using assms
proof (induction rs arbitrary: w)
  case Nil
  then show ?case by (cases w) simp
next
  case (Cons r rs)
  have st: "status_code r = HTTP_ACCEPTED" "status_code r \<noteq> HTTP_OK"
    using Cons.prems(1) by (simp_all add: HTTP_ACCEPTED_def HTTP_OK_def)
  have nw: "network w = r # (rs @ rest)" using Cons.prems(3) by simp
  let ?w1 = "sleep 10 (w\<lparr>clock := clock w + int (took r), network := rs @ rest,
                 sent := sent w @ [poll_request c pid]\<rparr>)"
  have step: "TgtgClient_login_poll (length (r # rs) + m) lr c w =
              TgtgClient_login_poll (length rs + m) lr c ?w1"
    using st Cons.prems(2) by (simp add: post_Cons [OF nw])
  have ih: "TgtgClient_login_poll (length rs + m) lr c ?w1 =
        TgtgClient_login_poll m lr c
           (?w1\<lparr>clock := clock ?w1 + int (sum_list (map took rs)) + 10000000 * int (length rs),
              network := rest,
              sent := sent ?w1 @ replicate (length rs) (poll_request c pid),
              slept := slept ?w1 @ replicate (length rs) 10\<rparr>)"
    using Cons.prems(1,2) by (intro Cons.IH) (simp_all add: sleep_def)
  show ?case
    unfolding step ih
    by (simp add: sleep_def replicate_append_same algebra_simps)
qed

lemma login_poll_answer:
  assumes "network w = ok # rest" and "status_code ok = HTTP_OK" and "body ok = Some j"
    and "getitem lr ''polling_id'' = Inr pid"
    and "getitem j ''access_token'' = Inr a" and "getitem j ''refresh_token'' = Inr b"
  shows "TgtgClient_login_poll (Suc m) lr c w =
    (let c3 = c\<lparr>access_token := a, refresh_token := b,
                last_time_token_refreshed := Some (clock w + int (took ok))\<rparr>;
         w1 = w\<lparr>clock := clock w + int (took ok), network := rest,
                sent := sent w @ [poll_request c pid]\<rparr>
     in case startup_user_id j of
          Inl e \<Rightarrow> (Inl e, c3, w1)
        | Inr u \<Rightarrow> (Inr (), c3\<lparr>user_id := u\<rparr>, call_store_function (c3\<lparr>user_id := u\<rparr>) w1))"
  using assms(2-)
  by (simp add: post_Cons [OF assms(1)] response_json_def Let_def split: sum.splits)

lemma login_starts_polling:
  assumes "\<not> already_logged c" and "truthy (access_token c) \<or> truthy (email c)"
    and "network w = lr # rs" and "status_code lr = HTTP_OK" and "body lr = Some lj"
  shows "TgtgClient_login c w =
     TgtgClient_login_poll 60 lj c
       (w\<lparr>clock := clock w + int (took lr), network := rs,
          sent := sent w @ [login_request c]\<rparr>)"
  using assms(1,2,4,5)
  by (auto simp add: TgtgClient_login_def post_Cons [OF assms(3)] response_json_def)

text \<open>
  Claim C4. Let the client be not signed in, with an email (or a lone access token) so
  that the flow starts. If the login request gets a 200 whose body holds a
  \<open>polling_id\<close>, the next \<open>k < 60\<close> polls get 202, and the poll after them gets a 200
  whose body holds \<open>access_token\<close>, \<open>refresh_token\<close> and
  \<open>startup_data.user.user_id\<close>, then \<open>_login\<close> returns normally having sent the login
  request and exactly \<open>k + 1\<close> polls, having slept 10 seconds \<open>k\<close> times, and having
  consumed no response after that 200; the three credentials are exactly the values
  of that body and \<open>last_time_token_refreshed\<close> is the clock reading when it arrived.
\<close>

theorem C4_login_confirmed:
  assumes "\<not> already_logged c" and "truthy (access_token c) \<or> truthy (email c)"
    and "network w = lr # rs @ ok # rest"
    and "status_code lr = HTTP_OK" and "body lr = Some lj"
    and "getitem lj ''polling_id'' = Inr pid"
    and "length rs = k" and "k < 60"
    and "\<forall>r\<in>set rs. status_code r = HTTP_ACCEPTED"
    and "status_code ok = HTTP_OK" and "body ok = Some j"
    and "getitem j ''access_token'' = Inr a" and "getitem j ''refresh_token'' = Inr b"
    and "startup_user_id j = Inr u"
  shows "TgtgClient_login c w =
    (let t = clock w + int (took lr) + int (sum_list (map took rs)) + 10000000 * int k
               + int (took ok);
         c' = c\<lparr>access_token := a, refresh_token := b,
                last_time_token_refreshed := Some t, user_id := u\<rparr>
     in (Inr (), c',
         call_store_function c'
           (w\<lparr>clock := t, network := rest,
              sent := sent w @ login_request c # replicate (Suc k) (poll_request c pid),
              slept := slept w @ replicate k 10\<rparr>)))"
proof -
  obtain m where m: "60 = length rs + Suc m"
    using assms(7,8) by (metis add_Suc_right less_imp_Suc_add)
  let ?w1 = "w\<lparr>clock := clock w + int (took lr), network := rs @ ok # rest,
               sent := sent w @ [login_request c]\<rparr>"
  let ?w2 = "?w1\<lparr>clock := clock ?w1 + int (sum_list (map took rs)) + 10000000 * int (length rs),
              network := ok # rest,
              sent := sent ?w1 @ replicate (length rs) (poll_request c pid),
              slept := slept ?w1 @ replicate (length rs) 10\<rparr>"
  have "TgtgClient_login c w = TgtgClient_login_poll 60 lj c ?w1"
    by (rule login_starts_polling [OF assms(1,2,3,4,5)])
  also have "\<dots> = TgtgClient_login_poll (length rs + Suc m) lj c ?w1"
    by (simp only: m)
  also have "\<dots> = TgtgClient_login_poll (Suc m) lj c ?w2"
    by (rule login_poll_accepted [OF assms(9) assms(6)]) simp
  finally have e: "TgtgClient_login c w = TgtgClient_login_poll (Suc m) lj c ?w2" .
  have n2: "network ?w2 = ok # rest" by simp
  show ?thesis
    unfolding e login_poll_answer [OF n2 assms(10,11,6,12,13)]
    using assms(7,14)
    by (cases w) (simp add: Let_def replicate_append_same algebra_simps)
qed

theorem C4_login_confirmed_witness:
  "TgtgClient_login
      (demo_client\<lparr>access_token := JNull, refresh_token := JNull,
         last_time_token_refreshed := None, user_id := JNull\<rparr>)
      (demo_world\<lparr>network :=
         [reply 200 [(''polling_id'', JStr ''P1'')],
          reply 202 [], reply 202 [], reply 202 [],
          reply 200 [(''access_token'', JStr ''A1''), (''refresh_token'', JStr ''R1''),
                     (''startup_data'',
                        JObj [(''user'', JObj [(''user_id'', JStr ''U1'')])])]]\<rparr>)
     = (Inr (),
        demo_client\<lparr>access_token := JStr ''A1'', refresh_token := JStr ''R1'',
          last_time_token_refreshed := Some 31250000, user_id := JStr ''U1''\<rparr>,
        demo_world\<lparr>clock := 31250000,
          sent :=
            login_request (demo_client\<lparr>access_token := JNull, refresh_token := JNull,
                             last_time_token_refreshed := None, user_id := JNull\<rparr>) #
            replicate 4
              (poll_request (demo_client\<lparr>access_token := JNull, refresh_token := JNull,
                               last_time_token_refreshed := None, user_id := JNull\<rparr>)
                 (JStr ''P1'')),
          slept := replicate 3 10,
          stored := [\<lparr>snap_access_token = JStr ''A1'', snap_refresh_token = JStr ''R1'',
                      snap_user_id = JStr ''U1'',
                      snap_last_time_token_refreshed = Some 31250000\<rparr>]\<rparr>)"
proof -
  let ?c = "demo_client\<lparr>access_token := JNull, refresh_token := JNull,
              last_time_token_refreshed := None, user_id := JNull\<rparr>"
  let ?lr = "reply 200 [(''polling_id'', JStr ''P1'')]"
  let ?rs = "[reply 202 [], reply 202 [], reply 202 []]"
  let ?j = "JObj [(''access_token'', JStr ''A1''), (''refresh_token'', JStr ''R1''),
                  (''startup_data'', JObj [(''user'', JObj [(''user_id'', JStr ''U1'')])])]"
  let ?ok = "\<lparr>status_code = 200, content = ''raw'', body = Some ?j, took = 250000\<rparr>"
  let ?w = "demo_world\<lparr>network := ?lr # ?rs @ ?ok # []\<rparr>"
  have h1: "\<not> already_logged ?c" by (simp add: already_logged_def)
  have h2: "truthy (access_token ?c) \<or> truthy (email ?c)" by (simp add: demo_defs)
  have h3: "network ?w = ?lr # ?rs @ ?ok # []" by simp
  have h4: "status_code ?lr = HTTP_OK" by (simp add: demo_defs)
  have h5: "body ?lr = Some (JObj [(''polling_id'', JStr ''P1'')])" by (simp add: demo_defs)
  have h6: "getitem (JObj [(''polling_id'', JStr ''P1'')]) ''polling_id'' = Inr (JStr ''P1'')"
    by simp
  have h7: "length ?rs = 3" by simp
  have h8: "(3::nat) < 60" by simp
  have h9: "\<forall>r\<in>set ?rs. status_code r = HTTP_ACCEPTED" by (simp add: demo_defs)
  have h10: "status_code ?ok = HTTP_OK" by (simp add: demo_defs)
  have h11: "body ?ok = Some ?j" by simp
  have h12: "getitem ?j ''access_token'' = Inr (JStr ''A1'')" by simp
  have h13: "getitem ?j ''refresh_token'' = Inr (JStr ''R1'')" by simp
  have h14: "startup_user_id ?j = Inr (JStr ''U1'')" by (simp add: startup_user_id_def)
  from C4_login_confirmed [OF h1 h2 h3 h4 h5 h6 h7 h8 h9 h10 h11 h12 h13 h14]
  show ?thesis
    by (simp add: demo_defs Let_def call_store_function_def current_snapshot_def)
qed

text \<open>
  Claim C5. Under the same start, if the login request gets a 200 (whose body holds the
  \<open>polling_id\<close> that the polls send) and the next 60 polls all get 202, then \<open>_login\<close>
  returns normally: no error is raised, exactly 60 polls were sent and 60 sleeps of 10
  seconds taken, and the instance, with every credential field, is as it was before.
\<close>

theorem C5_login_unconfirmed:
  assumes "\<not> already_logged c" and "truthy (access_token c) \<or> truthy (email c)"
    and "network w = lr # rs @ rest"
    and "status_code lr = HTTP_OK" and "body lr = Some lj"
    and "getitem lj ''polling_id'' = Inr pid"
    and "length rs = 60"
    and "\<forall>r\<in>set rs. status_code r = HTTP_ACCEPTED"
  shows "TgtgClient_login c w =
    (Inr (), c,
     w\<lparr>clock := clock w + int (took lr) + int (sum_list (map took rs)) + 600000000,
       network := rest,
       sent := sent w @ login_request c # replicate 60 (poll_request c pid),
       slept := slept w @ replicate 60 10\<rparr>)"
proof -
  let ?w1 = "w\<lparr>clock := clock w + int (took lr), network := rs @ rest,
               sent := sent w @ [login_request c]\<rparr>"
  let ?w2 = "?w1\<lparr>clock := clock ?w1 + int (sum_list (map took rs)) + 10000000 * int (length rs),
              network := rest,
              sent := sent ?w1 @ replicate (length rs) (poll_request c pid),
              slept := slept ?w1 @ replicate (length rs) 10\<rparr>"
  have "TgtgClient_login c w = TgtgClient_login_poll 60 lj c ?w1"
    by (rule login_starts_polling [OF assms(1,2,3,4,5)])
  also have "\<dots> = TgtgClient_login_poll (length rs + 0) lj c ?w1"
    by (simp only: assms(7) add_0_right)
  also have "\<dots> = TgtgClient_login_poll 0 lj c ?w2"
    by (rule login_poll_accepted [OF assms(8) assms(6)]) simp
  finally have e: "TgtgClient_login c w = TgtgClient_login_poll 0 lj c ?w2" .
  show ?thesis
    unfolding e using assms(7)
    by (cases w) (simp add: algebra_simps)
qed

theorem C5_login_unconfirmed_witness:
  "TgtgClient_login
      (demo_client\<lparr>access_token := JNull, refresh_token := JNull,
         last_time_token_refreshed := None, user_id := JNull\<rparr>)
      (demo_world\<lparr>network :=
         reply 200 [(''polling_id'', JStr ''P1'')] # replicate 60 (reply 202 []) @ []\<rparr>)
     = (Inr (),
        demo_client\<lparr>access_token := JNull, refresh_token := JNull,
          last_time_token_refreshed := None, user_id := JNull\<rparr>,
        demo_world\<lparr>clock := 615250000,
          sent :=
            login_request (demo_client\<lparr>access_token := JNull, refresh_token := JNull,
                             last_time_token_refreshed := None, user_id := JNull\<rparr>) #
            replicate 60
              (poll_request (demo_client\<lparr>access_token := JNull, refresh_token := JNull,
                               last_time_token_refreshed := None, user_id := JNull\<rparr>)
                 (JStr ''P1'')),
          slept := replicate 60 10\<rparr>)"
proof -
  let ?c = "demo_client\<lparr>access_token := JNull, refresh_token := JNull,
              last_time_token_refreshed := None, user_id := JNull\<rparr>"
  let ?lr = "reply 200 [(''polling_id'', JStr ''P1'')]"
  let ?rs = "replicate 60 (reply 202 [])"
  let ?w = "demo_world\<lparr>network := ?lr # ?rs @ []\<rparr>"
  have h1: "\<not> already_logged ?c" by (simp add: already_logged_def)
  have h2: "truthy (access_token ?c) \<or> truthy (email ?c)" by (simp add: demo_defs)
  have h3: "network ?w = ?lr # ?rs @ []" by simp
  have h4: "status_code ?lr = HTTP_OK" by (simp add: demo_defs)
  have h5: "body ?lr = Some (JObj [(''polling_id'', JStr ''P1'')])" by (simp add: demo_defs)
  have h6: "getitem (JObj [(''polling_id'', JStr ''P1'')]) ''polling_id'' = Inr (JStr ''P1'')"
    by simp
  have h7: "length ?rs = 60" by simp
  have h8: "\<forall>r\<in>set ?rs. status_code r = HTTP_ACCEPTED" by (simp add: demo_defs)
  from C5_login_unconfirmed [OF h1 h2 h3 h4 h5 h6 h7 h8]
  show ?thesis
    by (simp add: demo_world_def reply_def sum_list_replicate)
qed

text \<open>
  Claim C9. Under the same start, if the poll after \<open>k < 60\<close> answers of 202 gets a 200
  whose body holds \<open>access_token\<close> and \<open>refresh_token\<close> but reading
  \<open>startup_data.user.user_id\<close> raises \<open>KeyError\<close>, then \<open>_login\<close> fails with that
  \<open>KeyError\<close> after \<open>access_token\<close>, \<open>refresh_token\<close> and \<open>last_time_token_refreshed\<close>
  have been overwritten with the new values; \<open>user_id\<close> keeps its prior value and the
  persistence callback is not called.
\<close>

theorem C9_login_half_written:
  assumes "\<not> already_logged c" and "truthy (access_token c) \<or> truthy (email c)"
    and "network w = lr # rs @ ok # rest"
    and "status_code lr = HTTP_OK" and "body lr = Some lj"
    and "getitem lj ''polling_id'' = Inr pid"
    and "length rs = k" and "k < 60"
    and "\<forall>r\<in>set rs. status_code r = HTTP_ACCEPTED"
    and "status_code ok = HTTP_OK" and "body ok = Some j"
    and "getitem j ''access_token'' = Inr a" and "getitem j ''refresh_token'' = Inr b"
    and "startup_user_id j = Inl (KeyError key)"
  shows "TgtgClient_login c w =
    (let t = clock w + int (took lr) + int (sum_list (map took rs)) + 10000000 * int k
               + int (took ok)
     in (Inl (KeyError key),
         c\<lparr>access_token := a, refresh_token := b, last_time_token_refreshed := Some t\<rparr>,
         w\<lparr>clock := t, network := rest,
           sent := sent w @ login_request c # replicate (Suc k) (poll_request c pid),
           slept := slept w @ replicate k 10\<rparr>))"
proof -
  obtain m where m: "60 = length rs + Suc m"
    using assms(7,8) by (metis add_Suc_right less_imp_Suc_add)
  let ?w1 = "w\<lparr>clock := clock w + int (took lr), network := rs @ ok # rest,
               sent := sent w @ [login_request c]\<rparr>"
  let ?w2 = "?w1\<lparr>clock := clock ?w1 + int (sum_list (map took rs)) + 10000000 * int (length rs),
              network := ok # rest,
              sent := sent ?w1 @ replicate (length rs) (poll_request c pid),
              slept := slept ?w1 @ replicate (length rs) 10\<rparr>"
  have "TgtgClient_login c w = TgtgClient_login_poll 60 lj c ?w1"
    by (rule login_starts_polling [OF assms(1,2,3,4,5)])
  also have "\<dots> = TgtgClient_login_poll (length rs + Suc m) lj c ?w1"
    by (simp only: m)
  also have "\<dots> = TgtgClient_login_poll (Suc m) lj c ?w2"
    by (rule login_poll_accepted [OF assms(9) assms(6)]) simp
  finally have e: "TgtgClient_login c w = TgtgClient_login_poll (Suc m) lj c ?w2" .
  have n2: "network ?w2 = ok # rest" by simp
  show ?thesis
    unfolding e login_poll_answer [OF n2 assms(10,11,6,12,13)]
    using assms(7,14)
    by (cases w) (simp add: Let_def replicate_append_same algebra_simps)
qed

theorem C9_login_half_written_witness:
  "TgtgClient_login
      (demo_client\<lparr>access_token := JNull, refresh_token := JNull,
         last_time_token_refreshed := None, user_id := JNull\<rparr>)
      (demo_world\<lparr>network :=
         [reply 200 [(''polling_id'', JStr ''P1'')],
          reply 202 [],
          reply 200 [(''access_token'', JStr ''A1''), (''refresh_token'', JStr ''R1''),
                     (''startup_data'', JObj [(''user'', JObj [])])]]\<rparr>)
     = (Inl (KeyError ''user_id''),
        demo_client\<lparr>access_token := JStr ''A1'', refresh_token := JStr ''R1'',
          last_time_token_refreshed := Some 10750000, user_id := JNull\<rparr>,
        demo_world\<lparr>clock := 10750000,
          sent :=
            [login_request (demo_client\<lparr>access_token := JNull, refresh_token := JNull,
                              last_time_token_refreshed := None, user_id := JNull\<rparr>),
             poll_request (demo_client\<lparr>access_token := JNull, refresh_token := JNull,
                             last_time_token_refreshed := None, user_id := JNull\<rparr>)
               (JStr ''P1''),
             poll_request (demo_client\<lparr>access_token := JNull, refresh_token := JNull,
                             last_time_token_refreshed := None, user_id := JNull\<rparr>)
               (JStr ''P1'')],
          slept := [10]\<rparr>)"
proof -
  let ?c = "demo_client\<lparr>access_token := JNull, refresh_token := JNull,
              last_time_token_refreshed := None, user_id := JNull\<rparr>"
  let ?lr = "reply 200 [(''polling_id'', JStr ''P1'')]"
  let ?rs = "[reply 202 []]"
  let ?j = "JObj [(''access_token'', JStr ''A1''), (''refresh_token'', JStr ''R1''),
                  (''startup_data'', JObj [(''user'', JObj [])])]"
  let ?ok = "\<lparr>status_code = 200, content = ''raw'', body = Some ?j, took = 250000\<rparr>"
  let ?w = "demo_world\<lparr>network := ?lr # ?rs @ ?ok # []\<rparr>"
  have h1: "\<not> already_logged ?c" by (simp add: already_logged_def)
  have h2: "truthy (access_token ?c) \<or> truthy (email ?c)" by (simp add: demo_defs)
  have h3: "network ?w = ?lr # ?rs @ ?ok # []" by simp
  have h4: "status_code ?lr = HTTP_OK" by (simp add: demo_defs)
  have h5: "body ?lr = Some (JObj [(''polling_id'', JStr ''P1'')])" by (simp add: demo_defs)
  have h6: "getitem (JObj [(''polling_id'', JStr ''P1'')]) ''polling_id'' = Inr (JStr ''P1'')"
    by simp
  have h7: "length ?rs = 1" by simp
  have h8: "(1::nat) < 60" by simp
  have h9: "\<forall>r\<in>set ?rs. status_code r = HTTP_ACCEPTED" by (simp add: demo_defs)
  have h10: "status_code ?ok = HTTP_OK" by (simp add: demo_defs)
  have h11: "body ?ok = Some ?j" by simp
  have h12: "getitem ?j ''access_token'' = Inr (JStr ''A1'')" by simp
  have h13: "getitem ?j ''refresh_token'' = Inr (JStr ''R1'')" by simp
  have h14: "startup_user_id ?j = Inl (KeyError ''user_id'')" by (simp add: startup_user_id_def)
  from C9_login_half_written [OF h1 h2 h3 h4 h5 h6 h7 h8 h9 h10 h11 h12 h13 h14]
  show ?thesis
    by (simp add: demo_defs Let_def)
qed

section \<open>Listing items\<close>

text \<open>
  A token obtained at most \<open>access_token_lifetime\<close> seconds ago, and not in the future,
  passes the guard of \<open>_refresh_token\<close>: the seconds component of a non-negative
  interval never exceeds the interval.
\<close>

lemma timedelta_seconds_within:
  assumes "0 \<le> d" and "d \<le> 1000000 * L"
  shows "timedelta_seconds d \<le> L"
proof -
  have "d div 1000000 \<le> L" using assms(2) by linarith
  moreover have "0 \<le> d div 1000000" using assms(1) by simp
  then have "(d div 1000000) mod 86400 \<le> d div 1000000"
    by (rule zmod_le_nonneg_dividend)
  ultimately show ?thesis by (simp add: timedelta_seconds_def)
qed

lemma login_skips_when_fresh:
  assumes "already_logged c" and "last_time_token_refreshed c = Some t"
    and "0 \<le> clock w - t" and "clock w - t \<le> 1000000 * access_token_lifetime c"
  shows "TgtgClient_login c w = (Inr (), c, w)"
  using assms timedelta_seconds_within [OF assms(3,4)]
  by (simp add: TgtgClient_login_def TgtgClient_refresh_token_def token_still_fresh_def)

text \<open>
  Claim C8. Let the client be signed in with a token within its lifetime (obtained at
  \<open>t\<close>, with \<open>0 \<le> now - t \<le> access_token_lifetime\<close>), and let \<open>r\<close> be the server's
  next answer. Then \<open>get_items\<close> sends the item request only. If \<open>r\<close> is a 200 whose
  body holds \<open>items\<close>, the call returns exactly that value; if \<open>r\<close> has any other
  status, the call raises \<open>TgtgAPIError\<close> with that status and the raw body. In both
  cases the instance, with every credential field, is unchanged.
\<close>

theorem C8_get_items_outcomes:
  assumes "already_logged c" and "last_time_token_refreshed c = Some t"
    and "0 \<le> clock w - t" and "clock w - t \<le> 1000000 * access_token_lifetime c"
    and "network w = r # rs"
  shows "(status_code r = HTTP_OK \<and> body r = Some j \<and> getitem j ''items'' = Inr items \<longrightarrow>
            TgtgClient_get_items c q w =
              (Inr items, c,
               w\<lparr>clock := clock w + int (took r), network := rs,
                 sent := sent w @ [items_request c q]\<rparr>)) \<and>
         (status_code r \<noteq> HTTP_OK \<longrightarrow>
            TgtgClient_get_items c q w =
              (Inl (TgtgAPIError (status_code r) (content r)), c,
               w\<lparr>clock := clock w + int (took r), network := rs,
                 sent := sent w @ [items_request c q]\<rparr>))"
  by (simp add: TgtgClient_get_items_def login_skips_when_fresh [OF assms(1-4)]
        post_Cons [OF assms(5)] response_json_def)

theorem C8_get_items_outcomes_witness:
  "TgtgClient_get_items demo_client demo_query
      (demo_world\<lparr>clock := 14400000000,
         network := [reply 200 [(''items'', JArr [JObj [(''item_id'', JStr ''42'')]])]]\<rparr>)
     = (Inr (JArr [JObj [(''item_id'', JStr ''42'')]]), demo_client,
        demo_world\<lparr>clock := 14400250000, sent := [items_request demo_client demo_query]\<rparr>) \<and>
   TgtgClient_get_items demo_client demo_query
      (demo_world\<lparr>clock := 14400000000, network := [reply 500 []]\<rparr>)
     = (Inl (TgtgAPIError 500 ''raw''), demo_client,
        demo_world\<lparr>clock := 14400250000, sent := [items_request demo_client demo_query]\<rparr>)"
proof -
  let ?kvs = "[(''items'', JArr [JObj [(''item_id'', JStr ''42'')]])]"
  have h1: "already_logged demo_client"
    by (simp add: already_logged_def demo_defs)
  have h2: "last_time_token_refreshed demo_client = Some 0"
    by (simp add: demo_defs)
  have h3: "0 \<le> clock (demo_world\<lparr>clock := 14400000000, network := [x]\<rparr>) - 0" for x
    by simp
  have h4: "clock (demo_world\<lparr>clock := 14400000000, network := [x]\<rparr>) - 0
              \<le> 1000000 * access_token_lifetime demo_client" for x
    by (simp add: demo_defs)
  have h5: "network (demo_world\<lparr>clock := 14400000000, network := [x]\<rparr>) = x # []" for x
    by simp
  from C8_get_items_outcomes [OF h1 h2 h3 h4 h5, of "reply 200 ?kvs" "JObj ?kvs"
         "JArr [JObj [(''item_id'', JStr ''42'')]]" demo_query]
       C8_get_items_outcomes [OF h1 h2 h3 h4 h5, of "reply 500 []" JNull JNull demo_query]
  show ?thesis
    by (simp add: demo_world_def reply_def HTTP_OK_def)
qed

section \<open>The persistence callback\<close>

text \<open>
  The refresh flow and the polling login flow end a successful acquisition with
  \<open>call_store_function\<close>, which hands the callback one snapshot of the instance as it
  then stands.
\<close>

lemma call_store_function_configured:
  "store_function c \<Longrightarrow>
   stored (call_store_function c w) = stored w @ [current_snapshot c]"
  by (simp add: call_store_function_def)

lemma call_store_function_absent:
  "\<not> store_function c \<Longrightarrow> call_store_function c w = w"
  by (simp add: call_store_function_def)

text \<open>
  Claim C6, at an input where it fails. A callback is configured and the sign-up
  request gets a 200 with both tokens and the user id. \<open>signup_by_email\<close> acquires the
  credentials (all four fields are written), but the callback receives nothing: the
  list of stored snapshots is still empty.
\<close>

theorem C6_signup_not_persisted:
  "store_function demo_client \<and>
   TgtgClient_signup_by_email demo_client demo_signup
      (demo_world\<lparr>network :=
         [reply 200 [(''access_token'', JStr ''A1''), (''refresh_token'', JStr ''R1''),
                     (''startup_data'',
                        JObj [(''user'', JObj [(''user_id'', JStr ''U1'')])])]]\<rparr>)
     = (Inr (),
        demo_client\<lparr>access_token := JStr ''A1'', refresh_token := JStr ''R1'',
          last_time_token_refreshed := Some 250000, user_id := JStr ''U1''\<rparr>,
        demo_world\<lparr>clock := 250000, sent := [signup_request demo_client demo_signup],
          stored := []\<rparr>)"
  by (simp add: TgtgClient_signup_by_email_def post_def response_json_def
        startup_user_id_def Let_def demo_defs)

section \<open>The credential fields across every operation\<close>

















end
